theory Spec2Isabelle
  imports Complex_Main
begin

section \<open>Ledger store\<close>

text \<open>
  The service keeps its ledger in a relational store reached through Prisma. Each table is
  modelled as the list of its rows, in the order the store returns them. Monetary columns are
  DECIMAL in the schema; they are modelled as exact rationals, so the IEEE rounding of the
  intermediate JavaScript numbers is not part of the model. Row identifiers (cuid strings in
  the schema) are natural numbers drawn from a counter kept beside the tables. The store is
  taken to be available: a store call returns instead of throwing.
\<close>

type_synonym money = rat

record wallet =
  wid :: nat
  w_userId :: nat
  w_currency :: string
  balance :: money
  availableBalance :: money
  reservedBalance :: money
  isActive :: bool

record transaction =
  tid :: nat
  userId :: nat
  walletId :: nat
  txType :: string
  status :: string
  amount :: money
  currency :: string
  fee :: money
  exchangeRate :: "money option"
  recipientCurrency :: "string option"
  circleTransferId :: "string option"
  circleStatus :: "string option"
  completedAt :: "int option"
  description :: "string option"

record statusHistoryRow =
  h_transactionId :: nat
  h_status :: string
  h_message :: string

record exchangeRateRow =
  fromCurrency :: string
  toCurrency :: string
  rate :: money
  timestamp :: int

record onrampTransaction =
  o_id :: nat
  o_walletId :: nat
  o_status :: string
  o_circleTransferId :: "string option"
  o_circleStatus :: "string option"
  o_usdcAmount :: money
  o_completedAt :: "int option"
  o_descriptionParses :: bool

record store =
  wallets :: "wallet list"
  transactions :: "transaction list"
  statusHistory :: "statusHistoryRow list"
  exchangeRates :: "exchangeRateRow list"
  onrampTransactions :: "onrampTransaction list"
  onrampStatusHistory :: "statusHistoryRow list"
  nextId :: nat

text \<open>
  What the handlers read from outside the store: the clock, the configuration, and the
  answers of the two external services. \<open>latestRates\<close> is what \<open>fetchLatestRates('USD')\<close>
  returns (\<open>None\<close> for \<open>null\<close>); \<open>gatewayTransfer\<close> is the id of the transfer that
  \<open>createGatewayTransfer\<close> returns, \<open>None\<close> when the call throws; \<open>hmacSha256Hex key body\<close>
  is the hex digest \<open>crypto.createHmac('sha256', key).update(body).digest('hex')\<close>.
\<close>

record env =
  now :: int
  NODE_ENV :: string
  processNodeEnv :: "string option"
  RAMPNOW_WEBHOOK_SECRET :: "string option"
  latestRates :: "(string \<times> money) list option"
  gatewayTransfer :: "string option"
  hmacSha256Hex :: "string \<Rightarrow> string \<Rightarrow> string"

record response =
  code :: nat
  success :: bool

section \<open>Rate converter (ExchangeRateService)\<close>

definition CACHE_DURATION :: int where
  "CACHE_DURATION = 60 * 60 * 1000"

text \<open>\<open>findFirst\<close> with \<open>orderBy: { timestamp: 'desc' }\<close>: the newest of the matching rows.\<close>

fun newestRow :: "exchangeRateRow list \<Rightarrow> exchangeRateRow option" where
  "newestRow [] = None"
| "newestRow (r # rs) =
     (case newestRow rs of
        None \<Rightarrow> Some r
      | Some r' \<Rightarrow> if timestamp r' > timestamp r then Some r' else Some r)"

definition findCachedRate :: "env \<Rightarrow> store \<Rightarrow> string \<Rightarrow> string \<Rightarrow> exchangeRateRow option" where
  "findCachedRate e s fromC toC =
     newestRow (filter (\<lambda>r. fromCurrency r = fromC \<and> toCurrency r = toC
                            \<and> timestamp r \<ge> now e - CACHE_DURATION) (exchangeRates s))"

text \<open>\<open>rates[c]\<close> used as a condition: \<open>undefined\<close> and \<open>0\<close> are both falsy.\<close>

definition truthyRate :: "(string \<times> money) list \<Rightarrow> string \<Rightarrow> bool" where
  "truthyRate rates c = (case map_of rates c of None \<Rightarrow> False | Some r \<Rightarrow> r \<noteq> 0)"

definition getExchangeRate :: "env \<Rightarrow> store \<Rightarrow> string \<Rightarrow> string \<Rightarrow> money" where
  "getExchangeRate e s fromC toC =
     (if fromC = toC then 1
      else case findCachedRate e s fromC toC of
        Some cachedRate \<Rightarrow> rate cachedRate
      | None \<Rightarrow>
         (case latestRates e of
            None \<Rightarrow> 1
          | Some rates \<Rightarrow>
              if truthyRate rates fromC \<and> truthyRate rates toC
              then the (map_of rates toC) / the (map_of rates fromC)
              else 1))"

text \<open>
  \<open>Number.prototype.toFixed(2)\<close> followed by \<open>parseFloat\<close>: the nearest multiple of 0.01,
  a tie going away from zero.
\<close>

definition toFixed2 :: "money \<Rightarrow> money" where
  "toFixed2 x =
     (if x < 0 then - (of_int \<lfloor>- x * 100 + 1 / 2\<rfloor> / 100)
      else of_int \<lfloor>x * 100 + 1 / 2\<rfloor> / 100)"

record feeQuote =
  q_sendAmount :: money
  q_transferFee :: money
  q_totalCost :: money
  q_exchangeRate :: money
  q_recipientReceives :: money

text \<open>\<open>TransactionController.calculateTransferFees\<close>, for a request that carries both fields.\<close>

definition calculateTransferFees :: "env \<Rightarrow> store \<Rightarrow> money \<Rightarrow> string \<Rightarrow> string \<Rightarrow> feeQuote" where
  "calculateTransferFees e s sendAmount fromC toC =
     (let feePercentage = 0.015;
          transferFee = sendAmount * feePercentage;
          totalCost = sendAmount + transferFee;
          exRate = getExchangeRate e s fromC toC;
          recipientAmount = (if fromC = toC then sendAmount else sendAmount * exRate)
      in \<lparr> q_sendAmount = sendAmount,
           q_transferFee = toFixed2 transferFee,
           q_totalCost = toFixed2 totalCost,
           q_exchangeRate = exRate,
           q_recipientReceives = toFixed2 recipientAmount \<rparr>)"

section \<open>Strings\<close>

text \<open>
  \<open>toUpperCase\<close> and \<open>toLowerCase\<close> on the ASCII letters; the status names and the hex
  digests they are applied to are ASCII.
\<close>

definition upperChar :: "char \<Rightarrow> char" where
  "upperChar c =
     (let n = (of_char c :: nat) in if 97 \<le> n \<and> n \<le> 122 then char_of (n - 32) else c)"

definition lowerChar :: "char \<Rightarrow> char" where
  "lowerChar c =
     (let n = (of_char c :: nat) in if 65 \<le> n \<and> n \<le> 90 then char_of (n + 32) else c)"

definition toUpperCase :: "string \<Rightarrow> string" where
  "toUpperCase = map upperChar"

definition toLowerCase :: "string \<Rightarrow> string" where
  "toLowerCase = map lowerChar"

text \<open>A string used as a condition: \<open>undefined\<close> and the empty string are falsy.\<close>

definition truthyString :: "string option \<Rightarrow> bool" where
  "truthyString x = (case x of None \<Rightarrow> False | Some v \<Rightarrow> v \<noteq> [])"

section \<open>Store primitives\<close>

text \<open>
  \<open>prisma.wallet.update({ where: { id }, data })\<close> and its sibling on transactions change
  the row with that id. Every call site below has just read the row, so the case of a missing
  row (where Prisma throws) does not arise and the update is written as a map over the table.
\<close>

definition updateWallet :: "nat \<Rightarrow> (wallet \<Rightarrow> wallet) \<Rightarrow> store \<Rightarrow> store" where
  "updateWallet i f s = s\<lparr> wallets := map (\<lambda>w. if wid w = i then f w else w) (wallets s) \<rparr>"

definition updateTransaction :: "nat \<Rightarrow> (transaction \<Rightarrow> transaction) \<Rightarrow> store \<Rightarrow> store" where
  "updateTransaction i f s =
     s\<lparr> transactions := map (\<lambda>t. if tid t = i then f t else t) (transactions s) \<rparr>"

definition createStatusHistory :: "nat \<Rightarrow> string \<Rightarrow> string \<Rightarrow> store \<Rightarrow> store" where
  "createStatusHistory i st msg s =
     s\<lparr> statusHistory := statusHistory s @
          [\<lparr> h_transactionId = i, h_status = st, h_message = msg \<rparr>] \<rparr>"

definition findWalletById :: "nat \<Rightarrow> store \<Rightarrow> wallet option" where
  "findWalletById i s = find (\<lambda>w. wid w = i) (wallets s)"

definition findActiveWallet :: "nat \<Rightarrow> string \<Rightarrow> store \<Rightarrow> wallet option" where
  "findActiveWallet u c s =
     find (\<lambda>w. w_userId w = u \<and> w_currency w = c \<and> isActive w) (wallets s)"

definition findTransactionByCircleId :: "string \<Rightarrow> store \<Rightarrow> transaction option" where
  "findTransactionByCircleId transferId s =
     find (\<lambda>t. circleTransferId t = Some transferId) (transactions s)"

definition findUserTransaction :: "nat \<Rightarrow> nat \<Rightarrow> store \<Rightarrow> transaction option" where
  "findUserTransaction i u s = find (\<lambda>t. tid t = i \<and> userId t = u) (transactions s)"

definition createTransaction :: "transaction \<Rightarrow> store \<Rightarrow> store" where
  "createTransaction t s =
     s\<lparr> transactions := transactions s @ [t\<lparr> tid := nextId s \<rparr>], nextId := Suc (nextId s) \<rparr>"

section \<open>Reservation engine (TransactionController, WalletController)\<close>

record user =
  u_id :: nat
  circleCustomerId :: "string option"

record transferRequest =
  r_amount :: money
  r_sourceWallet :: string
  r_recipientCurrency :: "string option"
  r_description :: "string option"

definition feePercentage :: money where
  "feePercentage = 0.015"

text \<open>
  \<open>createTransfer\<close>. The settlement call is made only for a user with a Circle customer id;
  when it throws, the handler's catch-all answers 500 and the rows written so far stay as
  they are. The transaction row keeps the status it was created with; the gateway step
  changes \<open>circleTransferId\<close> and \<open>circleStatus\<close> and appends a history row.
\<close>

definition createTransfer :: "env \<Rightarrow> user option \<Rightarrow> transferRequest \<Rightarrow> store \<Rightarrow> response \<times> store" where
  "createTransfer e u req s =
     (case u of
        None \<Rightarrow> (\<lparr> code = 401, success = False \<rparr>, s)
      | Some usr \<Rightarrow>
         (let recipientCur = (case r_recipientCurrency req of None \<Rightarrow> ''USD'' | Some c \<Rightarrow> c) in
          case findActiveWallet (u_id usr) (r_sourceWallet req) s of
            None \<Rightarrow> (\<lparr> code = 404, success = False \<rparr>, s)
          | Some w \<Rightarrow>
             (let transferFee = r_amount req * feePercentage;
                  totalDeduction = r_amount req + transferFee
              in if availableBalance w < totalDeduction
                 then (\<lparr> code = 400, success = False \<rparr>, s)
                 else
                  (let exRate = getExchangeRate e s (r_sourceWallet req) recipientCur;
                       newId = nextId s;
                       s1 = createTransaction
                              \<lparr> tid = newId, userId = u_id usr, walletId = wid w,
                                txType = ''TRANSFER_SEND'', status = ''PENDING'',
                                amount = r_amount req, currency = r_sourceWallet req,
                                fee = transferFee, exchangeRate = Some exRate,
                                recipientCurrency = Some recipientCur,
                                circleTransferId = None, circleStatus = None,
                                completedAt = None, description = r_description req \<rparr> s;
                       s2 = updateWallet (wid w)
                              (\<lambda>x. x\<lparr> availableBalance := availableBalance x - totalDeduction,
                                       reservedBalance := reservedBalance x + totalDeduction \<rparr>) s1;
                       s3 = createStatusHistory newId ''PENDING''
                              ''Transfer initiated - validating recipient details'' s2
                   in if truthyString (circleCustomerId usr)
                      then (case gatewayTransfer e of
                              None \<Rightarrow> (\<lparr> code = 500, success = False \<rparr>, s3)
                            | Some gatewayTransferId \<Rightarrow>
                               (let s4 = updateTransaction newId
                                           (\<lambda>t. t\<lparr> circleTransferId := Some gatewayTransferId,
                                                    circleStatus := Some ''GATEWAY_PROCESSING'' \<rparr>) s3;
                                    s5 = createStatusHistory newId ''PROCESSING''
                                           ''Processing instant settlement'' s4
                                in (\<lparr> code = 201, success = True \<rparr>, s5)))
                      else (\<lparr> code = 201, success = True \<rparr>, s3)))))"

text \<open>
  \<open>updateTransactionStatus\<close>. A request without a \<open>status\<close> field fails at
  \<open>status.toUpperCase()\<close> before any row is written, and the catch-all answers 500.
\<close>

definition updateTransactionStatus ::
  "env \<Rightarrow> user option \<Rightarrow> nat \<Rightarrow> string option \<Rightarrow> string option \<Rightarrow> store \<Rightarrow> response \<times> store" where
  "updateTransactionStatus e u i st msg s =
     (case u of
        None \<Rightarrow> (\<lparr> code = 401, success = False \<rparr>, s)
      | Some usr \<Rightarrow>
         (case findUserTransaction i (u_id usr) s of
            None \<Rightarrow> (\<lparr> code = 404, success = False \<rparr>, s)
          | Some t \<Rightarrow>
             (case st of
                None \<Rightarrow> (\<lparr> code = 500, success = False \<rparr>, s)
              | Some newStatus \<Rightarrow>
                 (let up = toUpperCase newStatus;
                      s1 = updateTransaction i
                             (\<lambda>x. if up = ''COMPLETED''
                                   then x\<lparr> status := up, completedAt := Some (now e) \<rparr>
                                   else x\<lparr> status := up \<rparr>) s;
                      s2 = createStatusHistory (tid t) up
                             (if truthyString msg then the msg
                              else ''Transaction '' @ toLowerCase newStatus) s1;
                      s3 = (if up = ''COMPLETED''
                            then (case findWalletById (walletId t) s2 of
                                    None \<Rightarrow> s2
                                  | Some w \<Rightarrow>
                                     (let totalDeduction = amount t + fee t
                                      in updateWallet (wid w)
                                           (\<lambda>x. x\<lparr> balance := balance x - totalDeduction,
                                                    reservedBalance := reservedBalance x - totalDeduction \<rparr>) s2))
                            else s2)
                  in (\<lparr> code = 200, success = True \<rparr>, s3)))))"

text \<open>
  \<open>WalletController.addFunds\<close>. The body fields may be absent; \<open>!currency\<close> holds for a
  missing or empty currency and \<open>!amount\<close> for a missing or zero amount.
\<close>

definition addFunds :: "user option \<Rightarrow> string option \<Rightarrow> money option \<Rightarrow> store \<Rightarrow> response \<times> store" where
  "addFunds u cur amt s =
     (case u of
        None \<Rightarrow> (\<lparr> code = 401, success = False \<rparr>, s)
      | Some usr \<Rightarrow>
         if \<not> truthyString cur \<or> amt = None \<or> amt = Some 0 \<or> the amt \<le> 0
         then (\<lparr> code = 400, success = False \<rparr>, s)
         else
          (case findActiveWallet (u_id usr) (the cur) s of
             None \<Rightarrow> (\<lparr> code = 404, success = False \<rparr>, s)
           | Some w \<Rightarrow>
              (let s1 = updateWallet (wid w)
                          (\<lambda>x. x\<lparr> balance := balance x + the amt,
                                   availableBalance := availableBalance x + the amt \<rparr>) s;
                   s2 = createTransaction
                          \<lparr> tid = nextId s1, userId = u_id usr, walletId = wid w,
                            txType = ''DEPOSIT'', status = ''COMPLETED'',
                            amount = the amt, currency = the cur,
                            fee = 0, exchangeRate = None, recipientCurrency = None,
                            circleTransferId = None, circleStatus = None,
                            completedAt = None, description = Some ''Test deposit'' \<rparr> s1
               in (\<lparr> code = 200, success = True \<rparr>, s2))))"

section \<open>Webhook reconciler (WebhookController, RampnowWebhookController)\<close>

text \<open>
  A Circle event as the handlers read it: \<open>event.type\<close>, \<open>event.data?.id\<close> and
  \<open>event.data?.errorMessage\<close>. An event without a type takes the default branch, as an
  unknown type does. The source holds a second copy of the Circle controller that dispatches
  on the names \<open>transfer.created\<close>, \<open>transfer.completed\<close> and \<open>transfer.failed\<close>
  to handlers with the same bodies; the model follows the copy that dispatches on the
  \<open>transactions.*\<close> and \<open>transaction.*\<close> names.
\<close>

record webhookEvent =
  ev_type :: string
  ev_dataId :: "string option"
  ev_errorMessage :: "string option"

text \<open>\<open>CircleService.verifyWebhookSignature\<close>: \<open>config.NODE_ENV === 'development' || true\<close>.\<close>

definition CircleService_verifyWebhookSignature :: "env \<Rightarrow> string \<Rightarrow> string option \<Rightarrow> bool" where
  "CircleService_verifyWebhookSignature e payload signature =
     (NODE_ENV e = ''development'' \<or> True)"

definition handleTransactionCreated :: "webhookEvent \<Rightarrow> store \<Rightarrow> store" where
  "handleTransactionCreated ev s =
     (if \<not> truthyString (ev_dataId ev) then s
      else case findTransactionByCircleId (the (ev_dataId ev)) s of
        None \<Rightarrow> s
      | Some t \<Rightarrow> createStatusHistory (tid t) ''PROCESSING''
                   ''Circle Gateway transfer initiated'' s)"

definition handleTransactionConfirmed :: "webhookEvent \<Rightarrow> store \<Rightarrow> store" where
  "handleTransactionConfirmed ev s =
     (if \<not> truthyString (ev_dataId ev) then s
      else case findTransactionByCircleId (the (ev_dataId ev)) s of
        None \<Rightarrow> s
      | Some t \<Rightarrow> createStatusHistory (tid t) ''PROCESSING''
                   ''Transaction confirmed on blockchain'' s)"

definition handleTransactionCompleted :: "env \<Rightarrow> webhookEvent \<Rightarrow> store \<Rightarrow> store" where
  "handleTransactionCompleted e ev s =
     (if \<not> truthyString (ev_dataId ev) then s
      else case findTransactionByCircleId (the (ev_dataId ev)) s of
        None \<Rightarrow> s
      | Some t \<Rightarrow>
         (let s1 = updateTransaction (tid t)
                     (\<lambda>x. x\<lparr> status := ''COMPLETED'', completedAt := Some (now e),
                              circleStatus := Some ''COMPLETED'' \<rparr>) s;
              s2 = createStatusHistory (tid t) ''COMPLETED'' ''Transfer completed successfully'' s1
          in case findWalletById (walletId t) s2 of
               None \<Rightarrow> s2
             | Some w \<Rightarrow>
                (let totalDeduction = amount t + fee t
                 in updateWallet (wid w)
                      (\<lambda>x. x\<lparr> balance := balance x - totalDeduction,
                               reservedBalance := reservedBalance x - totalDeduction \<rparr>) s2)))"

definition handleTransactionFailed :: "webhookEvent \<Rightarrow> store \<Rightarrow> store" where
  "handleTransactionFailed ev s =
     (if \<not> truthyString (ev_dataId ev) then s
      else case findTransactionByCircleId (the (ev_dataId ev)) s of
        None \<Rightarrow> s
      | Some t \<Rightarrow>
         (let s1 = updateTransaction (tid t)
                     (\<lambda>x. x\<lparr> status := ''FAILED'', circleStatus := Some ''FAILED'' \<rparr>) s;
              s2 = createStatusHistory (tid t) ''FAILED''
                     (''Transfer failed: '' @
                        (if truthyString (ev_errorMessage ev) then the (ev_errorMessage ev)
                         else ''Unknown error'')) s1
          in case findWalletById (walletId t) s2 of
               None \<Rightarrow> s2
             | Some w \<Rightarrow>
                (let totalDeduction = amount t + fee t
                 in updateWallet (wid w)
                      (\<lambda>x. x\<lparr> availableBalance := availableBalance x + totalDeduction,
                               reservedBalance := reservedBalance x - totalDeduction \<rparr>) s2)))"

text \<open>\<open>handleWalletCreated\<close> and \<open>handleUserCreated\<close> only write to the log.\<close>

definition dispatchCircleEvent :: "env \<Rightarrow> webhookEvent \<Rightarrow> store \<Rightarrow> store" where
  "dispatchCircleEvent e ev s =
     (let ty = ev_type ev in
      if ty = ''transactions.created'' \<or> ty = ''transaction.created''
        then handleTransactionCreated ev s
      else if ty = ''transactions.confirmed'' \<or> ty = ''transaction.confirmed''
        then handleTransactionConfirmed ev s
      else if ty = ''transactions.completed'' \<or> ty = ''transaction.completed''
        then handleTransactionCompleted e ev s
      else if ty = ''transactions.failed'' \<or> ty = ''transaction.failed''
        then handleTransactionFailed ev s
      else s)"

definition handleCircleWebhook ::
  "env \<Rightarrow> string \<Rightarrow> string option \<Rightarrow> webhookEvent \<Rightarrow> store \<Rightarrow> response \<times> store" where
  "handleCircleWebhook e payload signature ev s =
     (if \<not> CircleService_verifyWebhookSignature e payload signature
      then (\<lparr> code = 401, success = False \<rparr>, s)
      else (\<lparr> code = 200, success = True \<rparr>, dispatchCircleEvent e ev s))"

text \<open>
  \<open>RampnowService.verifyWebhookSignature\<close>. The bypass reads \<open>process.env.NODE_ENV\<close>, which
  is absent when the variable is not set.
\<close>

definition RampnowService_verifyWebhookSignature :: "env \<Rightarrow> string \<Rightarrow> string option \<Rightarrow> bool" where
  "RampnowService_verifyWebhookSignature e rawBody signature =
     (if \<not> truthyString signature \<or> \<not> truthyString (RAMPNOW_WEBHOOK_SECRET e)
      then processNodeEnv e = Some ''development''
      else (let expectedSignature =
                  toLowerCase (hmacSha256Hex e (the (RAMPNOW_WEBHOOK_SECRET e)) rawBody)
            in toLowerCase (the signature) = toLowerCase expectedSignature))"

text \<open>
  A Rampnow event after \<open>data = event?.data || event\<close>: the fields of \<open>data\<close> the handler
  reads. \<open>o_descriptionParses\<close> on the stored onramp row says whether
  \<open>tx.description ? JSON.parse(tx.description) : {}\<close> returns (it throws on a description
  that is not JSON).
\<close>

record rampnowEvent =
  rn_id :: "string option"
  rn_sessionId :: "string option"
  rn_status :: "string option"
  rn_cryptoAmount :: "money option"
  rn_amount :: "money option"

definition truthyAmount :: "money option \<Rightarrow> bool" where
  "truthyAmount x = (case x of None \<Rightarrow> False | Some v \<Rightarrow> v \<noteq> 0)"

definition updateOnramp :: "nat \<Rightarrow> (onrampTransaction \<Rightarrow> onrampTransaction) \<Rightarrow> store \<Rightarrow> store" where
  "updateOnramp i f s =
     s\<lparr> onrampTransactions := map (\<lambda>t. if o_id t = i then f t else t) (onrampTransactions s) \<rparr>"

text \<open>\<open>data?.id || data?.sessionId\<close>.\<close>

definition rampnowSessionId :: "rampnowEvent \<Rightarrow> string option" where
  "rampnowSessionId ev = (if truthyString (rn_id ev) then rn_id ev else rn_sessionId ev)"

definition RampnowWebhookController_handle ::
  "env \<Rightarrow> string \<Rightarrow> string option \<Rightarrow> rampnowEvent \<Rightarrow> store \<Rightarrow> response \<times> store" where
  "RampnowWebhookController_handle e rawBody signature ev s =
     (if \<not> RampnowService_verifyWebhookSignature e rawBody signature
      then (\<lparr> code = 401, success = False \<rparr>, s)
      else
       (let sessionId = rampnowSessionId ev in
        if \<not> truthyString sessionId then (\<lparr> code = 400, success = False \<rparr>, s)
        else case find (\<lambda>t. o_circleTransferId t = sessionId) (onrampTransactions s) of
          None \<Rightarrow> (\<lparr> code = 200, success = True \<rparr>, s)
        | Some tx \<Rightarrow>
           if \<not> truthyString (rn_status ev) then (\<lparr> code = 200, success = True \<rparr>, s)
           else
            (let st = the (rn_status ev);
                 s1 = updateOnramp (o_id tx) (\<lambda>x. x\<lparr> o_circleStatus := Some st \<rparr>) s;
                 s2 = s1\<lparr> onrampStatusHistory := onrampStatusHistory s1 @
                        [\<lparr> h_transactionId = o_id tx,
                           h_status = (if st = ''completed'' then ''COMPLETED''
                                       else if st = ''failed'' then ''FAILED'' else ''PROCESSING''),
                           h_message = ''Rampnow status: '' @ st \<rparr>] \<rparr>
             in if st = ''completed'' then
                  (if \<not> o_descriptionParses tx then (\<lparr> code = 500, success = False \<rparr>, s2)
                   else case findWalletById (o_walletId tx) s2 of
                     None \<Rightarrow> (\<lparr> code = 200, success = True \<rparr>, s2)
                   | Some targetWallet \<Rightarrow>
                      (let usdcAmountReceived =
                             (if truthyAmount (rn_cryptoAmount ev) then the (rn_cryptoAmount ev)
                              else if truthyAmount (rn_amount ev) then the (rn_amount ev)
                              else o_usdcAmount tx);
                           creditAmount =
                             (if w_currency targetWallet = ''USDC'' then usdcAmountReceived
                              else usdcAmountReceived *
                                     getExchangeRate e s2 ''USDC'' (w_currency targetWallet));
                           s3 = updateWallet (wid targetWallet)
                                  (\<lambda>x. x\<lparr> balance := balance x + creditAmount,
                                           availableBalance := availableBalance x + creditAmount \<rparr>) s2;
                           s4 = updateOnramp (o_id tx)
                                  (\<lambda>x. x\<lparr> o_status := ''COMPLETED'', o_completedAt := Some (now e),
                                           o_usdcAmount := usdcAmountReceived \<rparr>) s3
                       in (\<lparr> code = 200, success = True \<rparr>, s4)))
                else if st = ''failed'' then
                  (\<lparr> code = 200, success = True \<rparr>,
                   updateOnramp (o_id tx) (\<lambda>x. x\<lparr> o_status := ''FAILED'' \<rparr>) s2)
                else (\<lparr> code = 200, success = True \<rparr>, s2))))"

section \<open>Example configuration and ledger\<close>

text \<open>
  A production configuration, a user with a Circle customer id, and a ledger holding one USD
  wallet with 100 available. \<open>exampleHmac\<close> stands in for the digest function where an
  example has to be evaluated; the general statements hold for every digest function.
\<close>

definition exampleHmac :: "string \<Rightarrow> string \<Rightarrow> string" where
  "exampleHmac k body = k @ body"

definition exampleEnv :: env where
  "exampleEnv = \<lparr> now = 1700000000000, NODE_ENV = ''production'',
                   processNodeEnv = Some ''production'',
                   RAMPNOW_WEBHOOK_SECRET = Some ''whsec'',
                   latestRates = Some [(''USD'', 1), (''NGN'', 1500)],
                   gatewayTransfer = Some ''gateway_1'',
                   hmacSha256Hex = exampleHmac \<rparr>"

definition exampleUser :: user where
  "exampleUser = \<lparr> u_id = 7, circleCustomerId = Some ''cust_7'' \<rparr>"

definition exampleWallet :: wallet where
  "exampleWallet = \<lparr> wid = 1, w_userId = 7, w_currency = ''USD'', balance = 100,
                      availableBalance = 100, reservedBalance = 0, isActive = True \<rparr>"

definition exampleStore :: store where
  "exampleStore = \<lparr> wallets = [exampleWallet], transactions = [], statusHistory = [],
                     exchangeRates = [], onrampTransactions = [], onrampStatusHistory = [],
                     nextId = 1 \<rparr>"

definition exampleRequest :: transferRequest where
  "exampleRequest = \<lparr> r_amount = 50, r_sourceWallet = ''USD'', r_recipientCurrency = None,
                       r_description = None \<rparr>"

definition completedEvent :: webhookEvent where
  "completedEvent = \<lparr> ev_type = ''transactions.completed'', ev_dataId = Some ''gateway_1'',
                       ev_errorMessage = None \<rparr>"

definition failedEvent :: webhookEvent where
  "failedEvent = \<lparr> ev_type = ''transactions.failed'', ev_dataId = Some ''gateway_1'',
                    ev_errorMessage = None \<rparr>"

text \<open>The ledger after the example transfer of 50 has been created and handed to the gateway.\<close>

definition reservedStore :: store where
  "reservedStore = snd (createTransfer exampleEnv (Some exampleUser) exampleRequest exampleStore)"

definition examplePayload :: string where
  "examplePayload = ''{}''"

text \<open>The same ledger after one delivery of the completed event.\<close>

definition completedStore :: store where
  "completedStore =
     snd (handleCircleWebhook exampleEnv examplePayload None completedEvent reservedStore)"

text \<open>The transaction row of that ledger.\<close>

definition completedTransaction :: transaction where
  "completedTransaction =
     \<lparr> tid = 1, userId = 7, walletId = 1, txType = ''TRANSFER_SEND'', status = ''COMPLETED'',
       amount = 50, currency = ''USD'', fee = 0.75, exchangeRate = Some 1,
       recipientCurrency = Some ''USD'', circleTransferId = Some ''gateway_1'',
       circleStatus = Some ''COMPLETED'', completedAt = Some 1700000000000,
       description = None \<rparr>"

text \<open>The ledger after one delivery of the failed event instead, and its transaction row.\<close>

definition failedStore :: store where
  "failedStore =
     snd (handleCircleWebhook exampleEnv examplePayload None failedEvent reservedStore)"

definition failedTransaction :: transaction where
  "failedTransaction =
     \<lparr> tid = 1, userId = 7, walletId = 1, txType = ''TRANSFER_SEND'', status = ''FAILED'',
       amount = 50, currency = ''USD'', fee = 0.75, exchangeRate = Some 1,
       recipientCurrency = Some ''USD'', circleTransferId = Some ''gateway_1'',
       circleStatus = Some ''FAILED'', completedAt = None, description = None \<rparr>"

text \<open>The example ledger with a direct NGN to USD quote cached a quarter of an hour ago.\<close>

definition cachedRateStore :: store where
  "cachedRateStore = exampleStore\<lparr> exchangeRates :=
      [\<lparr> fromCurrency = ''NGN'', toCurrency = ''USD'', rate = 0.0007,
         timestamp = 1699999100000 \<rparr>] \<rparr>"

text \<open>A configuration whose quote source gives 100000/67 NGN for one USD.\<close>

definition quotedEnv :: env where
  "quotedEnv = exampleEnv\<lparr> latestRates := Some [(''USD'', 1), (''NGN'', 100000 / 67)] \<rparr>"

text \<open>A configuration in which the gateway call throws.\<close>

definition gatewayDownEnv :: env where
  "gatewayDownEnv = exampleEnv\<lparr> gatewayTransfer := None \<rparr>"

definition exampleOnramp :: onrampTransaction where
  "exampleOnramp = \<lparr> o_id = 5, o_walletId = 1, o_status = ''PENDING'',
                      o_circleTransferId = Some ''sess_1'', o_circleStatus = Some ''pending'',
                      o_usdcAmount = 20, o_completedAt = None, o_descriptionParses = True \<rparr>"

definition onrampStore :: store where
  "onrampStore = exampleStore\<lparr> onrampTransactions := [exampleOnramp] \<rparr>"

definition unknownSessionEvent :: rampnowEvent where
  "unknownSessionEvent = \<lparr> rn_id = Some ''sess_404'', rn_sessionId = None,
                            rn_status = Some ''completed'', rn_cryptoAmount = Some 20,
                            rn_amount = None \<rparr>"

definition unknownTransferEvent :: webhookEvent where
  "unknownTransferEvent = \<lparr> ev_type = ''transactions.completed'', ev_dataId = Some ''gateway_404'',
                             ev_errorMessage = None \<rparr>"


section \<open>Ledger predicates\<close>

text \<open>The accounting equation of a wallet row, over the whole wallets table.\<close>

definition ledgerInv :: "store \<Rightarrow> bool" where
  "ledgerInv s =
     list_all (\<lambda>w. balance w = availableBalance w + reservedBalance w) (wallets s)"

definition nonNegative :: "store \<Rightarrow> bool" where
  "nonNegative s =
     list_all (\<lambda>w. 0 \<le> availableBalance w \<and> 0 \<le> reservedBalance w) (wallets s)"




text \<open>What completion does to a wallet row, and what failure does.\<close>

definition settle :: "money \<Rightarrow> wallet \<Rightarrow> wallet" where
  "settle d w = w\<lparr> balance := balance w - d, reservedBalance := reservedBalance w - d \<rparr>"

definition release :: "money \<Rightarrow> wallet \<Rightarrow> wallet" where
  "release d w = w\<lparr> availableBalance := availableBalance w + d,
                     reservedBalance := reservedBalance w - d \<rparr>"


definition credit :: "money \<Rightarrow> wallet \<Rightarrow> wallet" where
  "credit d w = w\<lparr> balance := balance w + d, availableBalance := availableBalance w + d \<rparr>"

text \<open>Apply a change to the rows of the wallets table that carry a given id.\<close>

definition onWallet :: "nat \<Rightarrow> (wallet \<Rightarrow> wallet) \<Rightarrow> wallet list \<Rightarrow> wallet list" where
  "onWallet i f ws = map (\<lambda>w. if wid w = i then f w else w) ws"

section \<open>Properties\<close>

subsection \<open>Store primitives\<close>

lemma find_SomeD: "find P xs = Some x \<Longrightarrow> x \<in> set xs \<and> P x"
  by (induction xs) (auto split: if_splits)

lemma wallets_updateTransaction [simp]: "wallets (updateTransaction i f s) = wallets s"
  by (simp add: updateTransaction_def)

lemma wallets_createStatusHistory [simp]: "wallets (createStatusHistory i st msg s) = wallets s"
  by (simp add: createStatusHistory_def)

lemma wallets_createTransaction [simp]: "wallets (createTransaction t s) = wallets s"
  by (simp add: createTransaction_def)

lemma wallets_updateOnramp [simp]: "wallets (updateOnramp i f s) = wallets s"
  by (simp add: updateOnramp_def)

lemma wallets_updateWallet [simp]:
  "wallets (updateWallet i f s) = map (\<lambda>w. if wid w = i then f w else w) (wallets s)"
  by (simp add: updateWallet_def)

lemma transactions_updateWallet [simp]: "transactions (updateWallet i f s) = transactions s"
  by (simp add: updateWallet_def)

lemma transactions_createStatusHistory [simp]:
  "transactions (createStatusHistory i st msg s) = transactions s"
  by (simp add: createStatusHistory_def)

lemma transactions_updateOnramp [simp]: "transactions (updateOnramp i f s) = transactions s"
  by (simp add: updateOnramp_def)

lemma transactions_updateTransaction [simp]:
  "transactions (updateTransaction i f s) = map (\<lambda>t. if tid t = i then f t else t) (transactions s)"
  by (simp add: updateTransaction_def)

lemma transactions_createTransaction [simp]:
  "transactions (createTransaction t s) = transactions s @ [t\<lparr> tid := nextId s \<rparr>]"
  by (simp add: createTransaction_def)

lemma statusHistory_updateWallet [simp]: "statusHistory (updateWallet i f s) = statusHistory s"
  by (simp add: updateWallet_def)

lemma statusHistory_updateTransaction [simp]:
  "statusHistory (updateTransaction i f s) = statusHistory s"
  by (simp add: updateTransaction_def)

lemma statusHistory_createTransaction [simp]:
  "statusHistory (createTransaction t s) = statusHistory s"
  by (simp add: createTransaction_def)

lemma statusHistory_createStatusHistory [simp]:
  "statusHistory (createStatusHistory i st msg s) =
     statusHistory s @ [\<lparr> h_transactionId = i, h_status = st, h_message = msg \<rparr>]"
  by (simp add: createStatusHistory_def)

lemma findWalletById_updateTransaction [simp]:
  "findWalletById i (updateTransaction j f s) = findWalletById i s"
  by (simp add: findWalletById_def)

lemma findWalletById_createStatusHistory [simp]:
  "findWalletById i (createStatusHistory j st msg s) = findWalletById i s"
  by (simp add: findWalletById_def)

lemma findWalletById_updateOnramp [simp]:
  "findWalletById i (updateOnramp j f s) = findWalletById i s"
  by (simp add: findWalletById_def)

lemma findWalletById_onrampStatusHistory [simp]:
  "findWalletById i (s\<lparr> onrampStatusHistory := h \<rparr>) = findWalletById i s"
  by (simp add: findWalletById_def)

subsection \<open>Rate converter\<close>

lemma getExchangeRate_same: "getExchangeRate e s c c = 1"
  by (simp add: getExchangeRate_def)

lemma getExchangeRate_cached:
  "A \<noteq> B \<Longrightarrow> findCachedRate e s A B = Some r \<Longrightarrow> getExchangeRate e s A B = rate r"
  by (simp add: getExchangeRate_def)

lemma getExchangeRate_cross:
  "A \<noteq> B \<Longrightarrow> findCachedRate e s A B = None \<Longrightarrow> latestRates e = Some rates \<Longrightarrow>
   map_of rates A = Some ra \<Longrightarrow> map_of rates B = Some rb \<Longrightarrow> ra \<noteq> 0 \<Longrightarrow> rb \<noteq> 0 \<Longrightarrow>
   getExchangeRate e s A B = rb / ra"
  by (simp add: getExchangeRate_def truthyRate_def)

lemma recipientReceives_eq:
  "q_recipientReceives (calculateTransferFees e s a A B) =
     toFixed2 (if A = B then a else a * getExchangeRate e s A B)"
  by (simp add: calculateTransferFees_def Let_def)

lemma toFixed2_example: "toFixed2 (1000000 * 0.00067) = 670"
  by code_simp

text \<open>
  Claim C9, as amended. \<open>getExchangeRate c c\<close> is exactly 1. For distinct currencies A and B,
  a fresh cached quote for the pair (A, B) is returned as it is; when there is none and the
  quote source gives non-zero USD quotes for both, the result is rate(USD,B) / rate(USD,A),
  units of B per unit of A. At the rate 0.00067 a quote for 1,000,000 NGN to USD shows 670.00
  as the amount received.
\<close>

theorem getExchangeRate_cache_then_cross_rate:
  "getExchangeRate e s c c = 1 \<and>
   (A \<noteq> B \<longrightarrow> findCachedRate e s A B = Some r \<longrightarrow> getExchangeRate e s A B = rate r) \<and>
   (A \<noteq> B \<longrightarrow> findCachedRate e s A B = None \<longrightarrow> latestRates e = Some rates \<longrightarrow>
      map_of rates A = Some ra \<longrightarrow> map_of rates B = Some rb \<longrightarrow> ra \<noteq> 0 \<longrightarrow> rb \<noteq> 0 \<longrightarrow>
      getExchangeRate e s A B = rb / ra) \<and>
   (getExchangeRate e s ''NGN'' ''USD'' = 0.00067 \<longrightarrow>
      q_recipientReceives (calculateTransferFees e s 1000000 ''NGN'' ''USD'') = 670)"
proof -
  have "getExchangeRate e s ''NGN'' ''USD'' = 0.00067 \<Longrightarrow>
      q_recipientReceives (calculateTransferFees e s 1000000 ''NGN'' ''USD'') = 670"
    using toFixed2_example by (simp only: recipientReceives_eq) simp
  then show ?thesis
    using getExchangeRate_same getExchangeRate_cached getExchangeRate_cross by blast
qed

text \<open>
  Claim C9 as stated fails: with USD quotes available for NGN and USD (1500 NGN per USD) and
  a fresh cached NGN to USD quote of 0.0007, the result is the cached quote and not
  rate(USD,USD) / rate(USD,NGN).
\<close>

theorem getExchangeRate_cached_quote_counterexample:
  "getExchangeRate exampleEnv cachedRateStore ''NGN'' ''USD'' \<noteq>
     the (map_of (the (latestRates exampleEnv)) ''USD'') / the (map_of (the (latestRates exampleEnv)) ''NGN'')"
  by (simp add: getExchangeRate_def findCachedRate_def cachedRateStore_def exampleEnv_def
      exampleStore_def CACHE_DURATION_def)

theorem getExchangeRate_cache_then_cross_rate_witness:
  "getExchangeRate exampleEnv cachedRateStore ''USD'' ''USD'' = 1 \<and>
   ''NGN'' \<noteq> ''USD'' \<and>
   findCachedRate exampleEnv cachedRateStore ''NGN'' ''USD'' =
      Some \<lparr> fromCurrency = ''NGN'', toCurrency = ''USD'', rate = 0.0007, timestamp = 1699999100000 \<rparr> \<and>
   getExchangeRate exampleEnv cachedRateStore ''NGN'' ''USD'' = 0.0007 \<and>
   findCachedRate quotedEnv exampleStore ''NGN'' ''USD'' = None \<and>
   latestRates quotedEnv = Some [(''USD'', 1), (''NGN'', 100000 / 67)] \<and>
   getExchangeRate quotedEnv exampleStore ''NGN'' ''USD'' = 1 / (100000 / 67) \<and>
   getExchangeRate quotedEnv exampleStore ''NGN'' ''USD'' = 0.00067 \<and>
   q_recipientReceives (calculateTransferFees quotedEnv exampleStore 1000000 ''NGN'' ''USD'') = 670"
proof -
  have c: "findCachedRate exampleEnv cachedRateStore ''NGN'' ''USD'' =
      Some \<lparr> fromCurrency = ''NGN'', toCurrency = ''USD'', rate = 0.0007, timestamp = 1699999100000 \<rparr>"
    by (simp add: findCachedRate_def cachedRateStore_def exampleEnv_def exampleStore_def
        CACHE_DURATION_def)
  have n: "findCachedRate quotedEnv exampleStore ''NGN'' ''USD'' = None"
    by (simp add: findCachedRate_def quotedEnv_def exampleStore_def)
  have l: "latestRates quotedEnv = Some [(''USD'', 1), (''NGN'', 100000 / 67)]"
    by (simp add: quotedEnv_def)
  have d: "''NGN'' \<noteq> ''USD''" by simp
  note t1 = getExchangeRate_cache_then_cross_rate
      [of exampleEnv cachedRateStore "''USD''" "''NGN''" "''USD''"
          "\<lparr> fromCurrency = ''NGN'', toCurrency = ''USD'', rate = 0.0007, timestamp = 1699999100000 \<rparr>"]
  note t2 = getExchangeRate_cache_then_cross_rate
      [of quotedEnv exampleStore "''USD''" "''NGN''" "''USD''" _
          "[(''USD'', 1), (''NGN'', 100000 / 67)]" "100000 / 67" 1]
  have g1: "getExchangeRate exampleEnv cachedRateStore ''USD'' ''USD'' = 1" using t1 by blast
  have g2: "getExchangeRate exampleEnv cachedRateStore ''NGN'' ''USD'' = 0.0007"
    using t1 c d by simp
  have g3: "getExchangeRate quotedEnv exampleStore ''NGN'' ''USD'' = 1 / (100000 / 67)"
    using t2 n l d by simp
  have g4: "getExchangeRate quotedEnv exampleStore ''NGN'' ''USD'' = 0.00067"
    using g3 by simp
  have g5: "q_recipientReceives (calculateTransferFees quotedEnv exampleStore 1000000 ''NGN'' ''USD'') = 670"
    using t2 g4 by blast
  show ?thesis using c n l d g1 g2 g3 g4 g5 by blast
qed

subsection \<open>Reservation\<close>

lemma onWallet_absent: "find (\<lambda>w. wid w = i) ws = None \<Longrightarrow> onWallet i f ws = ws"
  by (induction ws) (auto simp: onWallet_def split: if_splits)

lemma find_wid: "find (\<lambda>w. wid w = i) ws = Some w \<Longrightarrow> wid w = i"
  by (drule find_SomeD) simp










lemmas example_defs = exampleEnv_def exampleUser_def exampleWallet_def exampleStore_def
  exampleRequest_def exampleHmac_def



subsection \<open>Deposit and unmatched events\<close>

lemma addFunds_rejects:
  "\<not> truthyString cur \<or> amt = None \<or> (\<exists>a. amt = Some a \<and> a \<le> 0) \<Longrightarrow>
   addFunds (Some usr) cur amt s = (\<lparr> code = 400, success = False \<rparr>, s)"
  by (auto simp: addFunds_def)

lemma addFunds_credits:
  assumes "truthyString cur" and "amt = Some a" and "0 < a"
    and "findActiveWallet (u_id usr) (the cur) s = Some w"
  shows "fst (addFunds (Some usr) cur amt s) = \<lparr> code = 200, success = True \<rparr>"
    and "wallets (snd (addFunds (Some usr) cur amt s)) = onWallet (wid w) (credit a) (wallets s)"
    and "\<exists>t. transactions (snd (addFunds (Some usr) cur amt s)) = transactions s @ [t] \<and>
             walletId t = wid w \<and> txType t = ''DEPOSIT'' \<and> status t = ''COMPLETED'' \<and>
             amount t = a \<and> fee t = 0"
  using assms by (auto simp: addFunds_def Let_def onWallet_def credit_def)

lemma onWallet_credit_reserved:
  "map reservedBalance (onWallet i (credit d) ws) = map reservedBalance ws"
  by (induction ws) (auto simp: onWallet_def credit_def)

text \<open>
  Claim C10. \<open>addFunds\<close> with a missing or empty currency, a missing amount or an amount
  \<open>\<le> 0\<close> answers with the 400 validation failure and leaves the store unchanged. With a
  currency, an amount \<open>a > 0\<close> and an active wallet of the user in that currency, it answers
  200, adds \<open>a\<close> to balance and to availableBalance of the wallet, leaves reservedBalance
  as it is, and adds one DEPOSIT transaction in status COMPLETED with fee 0.
\<close>

theorem addFunds_validates_then_credits:
  "((\<not> truthyString cur \<or> amt = None \<or> (\<exists>a. amt = Some a \<and> a \<le> 0)) \<longrightarrow>
      addFunds (Some usr) cur amt s = (\<lparr> code = 400, success = False \<rparr>, s)) \<and>
   (truthyString cur \<longrightarrow> amt = Some a \<longrightarrow> 0 < a \<longrightarrow>
    findActiveWallet (u_id usr) (the cur) s = Some w \<longrightarrow>
      fst (addFunds (Some usr) cur amt s) = \<lparr> code = 200, success = True \<rparr> \<and>
      wallets (snd (addFunds (Some usr) cur amt s)) = onWallet (wid w) (credit a) (wallets s) \<and>
      map reservedBalance (wallets (snd (addFunds (Some usr) cur amt s))) =
        map reservedBalance (wallets s) \<and>
      (\<exists>t. transactions (snd (addFunds (Some usr) cur amt s)) = transactions s @ [t] \<and>
           walletId t = wid w \<and> txType t = ''DEPOSIT'' \<and> status t = ''COMPLETED'' \<and>
           amount t = a \<and> fee t = 0))"
proof (intro conjI impI)
  assume "\<not> truthyString cur \<or> amt = None \<or> (\<exists>a. amt = Some a \<and> a \<le> 0)"
  then show "addFunds (Some usr) cur amt s = (\<lparr> code = 400, success = False \<rparr>, s)"
    using addFunds_rejects by simp
next
  assume h: "truthyString cur" "amt = Some a" "0 < a"
    "findActiveWallet (u_id usr) (the cur) s = Some w"
  show "fst (addFunds (Some usr) cur amt s) = \<lparr> code = 200, success = True \<rparr>"
    using h by (rule addFunds_credits(1))
  show w: "wallets (snd (addFunds (Some usr) cur amt s)) = onWallet (wid w) (credit a) (wallets s)"
    using h by (rule addFunds_credits(2))
  show "map reservedBalance (wallets (snd (addFunds (Some usr) cur amt s))) =
        map reservedBalance (wallets s)"
    by (simp only: w onWallet_credit_reserved)
  show "\<exists>t. transactions (snd (addFunds (Some usr) cur amt s)) = transactions s @ [t] \<and>
           walletId t = wid w \<and> txType t = ''DEPOSIT'' \<and> status t = ''COMPLETED'' \<and>
           amount t = a \<and> fee t = 0"
    using h by (rule addFunds_credits(3))
qed

theorem addFunds_validates_then_credits_witness:
  "addFunds (Some exampleUser) None (Some 10) exampleStore =
     (\<lparr> code = 400, success = False \<rparr>, exampleStore) \<and>
   addFunds (Some exampleUser) (Some ''USD'') (Some (- 5)) exampleStore =
     (\<lparr> code = 400, success = False \<rparr>, exampleStore) \<and>
   truthyString (Some ''USD'') \<and> (0::rat) < 10 \<and>
   findActiveWallet (u_id exampleUser) ''USD'' exampleStore = Some exampleWallet \<and>
   wallets (snd (addFunds (Some exampleUser) (Some ''USD'') (Some 10) exampleStore)) =
     [exampleWallet\<lparr> balance := 110, availableBalance := 110 \<rparr>]"
proof -
  have c: "truthyString (Some ''USD'')" by (simp add: truthyString_def)
  have w: "findActiveWallet (u_id exampleUser) (the (Some ''USD'')) exampleStore = Some exampleWallet"
    by (simp add: findActiveWallet_def example_defs)
  have n: "\<not> truthyString None" by (simp add: truthyString_def)
  have a1: "addFunds (Some exampleUser) None (Some 10) exampleStore =
     (\<lparr> code = 400, success = False \<rparr>, exampleStore)"
    using addFunds_validates_then_credits [of None "Some 10" exampleUser exampleStore] n by blast
  have a2: "addFunds (Some exampleUser) (Some ''USD'') (Some (- 5)) exampleStore =
     (\<lparr> code = 400, success = False \<rparr>, exampleStore)"
    using addFunds_validates_then_credits [of "Some ''USD''" "Some (- 5)" exampleUser exampleStore]
    by simp
  have "wallets (snd (addFunds (Some exampleUser) (Some ''USD'') (Some 10) exampleStore)) =
     onWallet (wid exampleWallet) (credit 10) (wallets exampleStore)"
    using addFunds_validates_then_credits
      [of "Some ''USD''" "Some 10" exampleUser exampleStore 10 exampleWallet] c w
    by simp
  then have a3: "wallets (snd (addFunds (Some exampleUser) (Some ''USD'') (Some 10) exampleStore)) =
     [exampleWallet\<lparr> balance := 110, availableBalance := 110 \<rparr>]"
    by (simp add: onWallet_def credit_def exampleStore_def exampleWallet_def)
  show ?thesis using a1 a2 a3 c w by simp
qed

lemma handleCircleWebhook_unmatched:
  "\<not> truthyString (ev_dataId ev) \<or> findTransactionByCircleId (the (ev_dataId ev)) s = None \<Longrightarrow>
   handleCircleWebhook e payload sg ev s = (\<lparr> code = 200, success = True \<rparr>, s)"
  by (auto simp: handleCircleWebhook_def CircleService_verifyWebhookSignature_def
      dispatchCircleEvent_def handleTransactionCreated_def handleTransactionConfirmed_def
      handleTransactionCompleted_def handleTransactionFailed_def Let_def)

lemma Rampnow_unmatched:
  "RampnowService_verifyWebhookSignature e rawBody sg \<Longrightarrow> truthyString (rampnowSessionId rn) \<Longrightarrow>
   find (\<lambda>t. o_circleTransferId t = rampnowSessionId rn) (onrampTransactions s) = None \<Longrightarrow>
   RampnowWebhookController_handle e rawBody sg rn s = (\<lparr> code = 200, success = True \<rparr>, s)"
  by (simp add: RampnowWebhookController_handle_def Let_def)

text \<open>
  Claim C8. A Circle event whose transfer id is absent or matches no stored transaction is
  answered with 200 and leaves the whole store (wallets, transactions, status history) as it
  was, whatever its type. A verified Rampnow event whose session id matches no stored onramp
  transaction is answered with 200 and leaves the store as it was.
\<close>

theorem unmatched_webhook_acknowledged_without_mutation:
  "((\<not> truthyString (ev_dataId ev) \<or> findTransactionByCircleId (the (ev_dataId ev)) s = None) \<longrightarrow>
      handleCircleWebhook e payload sg ev s = (\<lparr> code = 200, success = True \<rparr>, s)) \<and>
   (RampnowService_verifyWebhookSignature e rawBody rsg \<longrightarrow> truthyString (rampnowSessionId rn) \<longrightarrow>
    find (\<lambda>t. o_circleTransferId t = rampnowSessionId rn) (onrampTransactions s) = None \<longrightarrow>
      RampnowWebhookController_handle e rawBody rsg rn s = (\<lparr> code = 200, success = True \<rparr>, s))"
  using handleCircleWebhook_unmatched Rampnow_unmatched by blast

theorem unmatched_webhook_acknowledged_without_mutation_witness:
  "findTransactionByCircleId ''gateway_404'' reservedStore = None \<and>
   handleCircleWebhook exampleEnv examplePayload None unknownTransferEvent reservedStore =
     (\<lparr> code = 200, success = True \<rparr>, reservedStore) \<and>
   RampnowService_verifyWebhookSignature exampleEnv examplePayload (Some ''WHSEC{}'') \<and>
   truthyString (rampnowSessionId unknownSessionEvent) \<and>
   find (\<lambda>t. o_circleTransferId t = rampnowSessionId unknownSessionEvent)
     (onrampTransactions onrampStore) = None \<and>
   RampnowWebhookController_handle exampleEnv examplePayload (Some ''WHSEC{}'') unknownSessionEvent
     onrampStore = (\<lparr> code = 200, success = True \<rparr>, onrampStore)"
proof -
  have n: "findTransactionByCircleId (the (ev_dataId unknownTransferEvent)) reservedStore = None"
    by code_simp
  have v: "RampnowService_verifyWebhookSignature exampleEnv examplePayload (Some ''WHSEC{}'')"
    by code_simp
  have t: "truthyString (rampnowSessionId unknownSessionEvent)"
    by code_simp
  have f: "find (\<lambda>t. o_circleTransferId t = rampnowSessionId unknownSessionEvent)
     (onrampTransactions onrampStore) = None"
    by code_simp
  note inst = unmatched_webhook_acknowledged_without_mutation
    [of unknownTransferEvent reservedStore exampleEnv examplePayload None examplePayload
        "Some ''WHSEC{}''" unknownSessionEvent]
  have a: "handleCircleWebhook exampleEnv examplePayload None unknownTransferEvent reservedStore =
     (\<lparr> code = 200, success = True \<rparr>, reservedStore)"
    using inst n by blast
  have b: "RampnowWebhookController_handle exampleEnv examplePayload (Some ''WHSEC{}'') unknownSessionEvent
     onrampStore = (\<lparr> code = 200, success = True \<rparr>, onrampStore)"
    using unmatched_webhook_acknowledged_without_mutation
      [of unknownTransferEvent onrampStore exampleEnv examplePayload None examplePayload
        "Some ''WHSEC{}''" unknownSessionEvent] v t f by blast
  have n': "findTransactionByCircleId ''gateway_404'' reservedStore = None"
    using n by (simp add: unknownTransferEvent_def)
  show ?thesis using n' a v t f b by blast
qed

subsection \<open>The accounting equation\<close>

lemma ledgerInv_updateWallet:
  "ledgerInv s \<Longrightarrow>
   \<forall>w. balance w = availableBalance w + reservedBalance w \<longrightarrow>
         balance (f w) = availableBalance (f w) + reservedBalance (f w) \<Longrightarrow>
   ledgerInv (updateWallet i f s)"
  by (auto simp: ledgerInv_def list_all_iff)

lemma ledgerInv_updateTransaction [simp]: "ledgerInv (updateTransaction i f s) = ledgerInv s"
  by (simp add: ledgerInv_def)

lemma ledgerInv_createStatusHistory [simp]: "ledgerInv (createStatusHistory i st msg s) = ledgerInv s"
  by (simp add: ledgerInv_def)

lemma ledgerInv_createTransaction [simp]: "ledgerInv (createTransaction t s) = ledgerInv s"
  by (simp add: ledgerInv_def)

lemma ledgerInv_updateOnramp [simp]: "ledgerInv (updateOnramp i f s) = ledgerInv s"
  by (simp add: ledgerInv_def)

lemma ledgerInv_onrampStatusHistory [simp]:
  "ledgerInv (s\<lparr> onrampStatusHistory := h \<rparr>) = ledgerInv s"
  by (simp add: ledgerInv_def)

lemma ledgerInv_createTransfer: "ledgerInv s \<Longrightarrow> ledgerInv (snd (createTransfer e u req s))"
  by (simp add: createTransfer_def Let_def ledgerInv_updateWallet split: option.splits)

lemma ledgerInv_addFunds: "ledgerInv s \<Longrightarrow> ledgerInv (snd (addFunds u cur amt s))"
  by (simp add: addFunds_def Let_def ledgerInv_updateWallet split: option.splits)

lemma ledgerInv_updateTransactionStatus:
  "ledgerInv s \<Longrightarrow> ledgerInv (snd (updateTransactionStatus e u i st msg s))"
  by (simp add: updateTransactionStatus_def Let_def ledgerInv_updateWallet split: option.splits)

lemma ledgerInv_completed: "ledgerInv s \<Longrightarrow> ledgerInv (handleTransactionCompleted e ev s)"
  by (simp add: handleTransactionCompleted_def Let_def ledgerInv_updateWallet split: option.splits)

lemma ledgerInv_failed: "ledgerInv s \<Longrightarrow> ledgerInv (handleTransactionFailed ev s)"
  by (simp add: handleTransactionFailed_def Let_def ledgerInv_updateWallet split: option.splits)

lemma ledgerInv_created: "ledgerInv s \<Longrightarrow> ledgerInv (handleTransactionCreated ev s)"
  by (simp add: handleTransactionCreated_def split: option.splits)

lemma ledgerInv_confirmed: "ledgerInv s \<Longrightarrow> ledgerInv (handleTransactionConfirmed ev s)"
  by (simp add: handleTransactionConfirmed_def split: option.splits)

lemma ledgerInv_handleCircleWebhook:
  "ledgerInv s \<Longrightarrow> ledgerInv (snd (handleCircleWebhook e payload sg ev s))"
  by (simp add: handleCircleWebhook_def dispatchCircleEvent_def Let_def ledgerInv_completed
      ledgerInv_failed ledgerInv_created ledgerInv_confirmed)

lemma ledgerInv_Rampnow:
  "ledgerInv s \<Longrightarrow> ledgerInv (snd (RampnowWebhookController_handle e rawBody sg rn s))"
  by (simp add: RampnowWebhookController_handle_def Let_def ledgerInv_updateWallet
      split: option.splits)

text \<open>
  Claim C1. If every wallet row satisfies balance = availableBalance + reservedBalance, then
  every wallet row satisfies it again after \<open>createTransfer\<close> (the reservation), after a
  Circle webhook of any type (completion and failure among them), after
  \<open>updateTransactionStatus\<close> (completion by status update), after \<open>addFunds\<close> (deposit)
  and after a Rampnow webhook (onramp credit).
\<close>

theorem balance_equation_preserved:
  assumes "ledgerInv s"
  shows "ledgerInv (snd (createTransfer e u req s)) \<and>
         ledgerInv (snd (handleCircleWebhook e payload sg ev s)) \<and>
         ledgerInv (snd (updateTransactionStatus e u i st msg s)) \<and>
         ledgerInv (snd (addFunds u cur amt s)) \<and>
         ledgerInv (snd (RampnowWebhookController_handle e rawBody rsg rn s))"
  using assms
  by (simp only: ledgerInv_createTransfer ledgerInv_handleCircleWebhook
      ledgerInv_updateTransactionStatus ledgerInv_addFunds ledgerInv_Rampnow simp_thms)

theorem balance_equation_preserved_witness:
  "ledgerInv reservedStore \<and>
   ledgerInv (snd (createTransfer exampleEnv (Some exampleUser) exampleRequest reservedStore)) \<and>
   ledgerInv (snd (handleCircleWebhook exampleEnv examplePayload None completedEvent reservedStore)) \<and>
   ledgerInv (snd (updateTransactionStatus exampleEnv (Some exampleUser) 1 (Some ''completed'') None
                     reservedStore)) \<and>
   ledgerInv (snd (addFunds (Some exampleUser) (Some ''USD'') (Some 10) reservedStore)) \<and>
   ledgerInv (snd (RampnowWebhookController_handle exampleEnv examplePayload None
                     unknownSessionEvent reservedStore))"
proof -
  have h: "ledgerInv reservedStore" by code_simp
  show ?thesis using h balance_equation_preserved [OF h] by simp
qed


subsection \<open>Completion and failure\<close>

lemma findWalletById_None_onWallet:
  "findWalletById i s = None \<Longrightarrow> onWallet i f (wallets s) = wallets s"
  by (simp add: findWalletById_def onWallet_absent)

lemma findWalletById_wid: "findWalletById i s = Some w \<Longrightarrow> wid w = i"
  by (auto simp: findWalletById_def dest: find_wid)

lemma handleTransactionCompleted_wallets:
  assumes "truthyString (ev_dataId ev)"
    and "findTransactionByCircleId (the (ev_dataId ev)) s = Some t"
  shows "wallets (handleTransactionCompleted e ev s) =
           onWallet (walletId t) (settle (amount t + fee t)) (wallets s)"
proof (cases "findWalletById (walletId t) s")
  case None
  with assms show ?thesis
    by (simp add: handleTransactionCompleted_def Let_def findWalletById_None_onWallet)
next
  case (Some w)
  then have "wid w = walletId t" by (rule findWalletById_wid)
  with Some assms show ?thesis
    by (simp add: handleTransactionCompleted_def Let_def onWallet_def settle_def)
qed

lemma handleTransactionFailed_wallets:
  assumes "truthyString (ev_dataId ev)"
    and "findTransactionByCircleId (the (ev_dataId ev)) s = Some t"
  shows "wallets (handleTransactionFailed ev s) =
           onWallet (walletId t) (release (amount t + fee t)) (wallets s)"
proof (cases "findWalletById (walletId t) s")
  case None
  with assms show ?thesis
    by (simp add: handleTransactionFailed_def Let_def findWalletById_None_onWallet)
next
  case (Some w)
  then have "wid w = walletId t" by (rule findWalletById_wid)
  with Some assms show ?thesis
    by (simp add: handleTransactionFailed_def Let_def onWallet_def release_def)
qed

lemma updateTransactionStatus_completed_wallets:
  assumes "findUserTransaction i (u_id usr) s = Some t" and "toUpperCase st = ''COMPLETED''"
  shows "wallets (snd (updateTransactionStatus e (Some usr) i (Some st) msg s)) =
           onWallet (walletId t) (settle (amount t + fee t)) (wallets s)"
proof (cases "findWalletById (walletId t) s")
  case None
  with assms show ?thesis
    by (simp add: updateTransactionStatus_def Let_def findWalletById_None_onWallet)
next
  case (Some w)
  then have "wid w = walletId t" by (rule findWalletById_wid)
  with Some assms show ?thesis
    by (simp add: updateTransactionStatus_def Let_def onWallet_def settle_def)
qed

text \<open>
  Claim C2 as stated fails: the example transaction is COMPLETED after the first completed
  event and its wallet holds balance 49.25, available 49.25, reserved 0; a second delivery of
  the same event leaves the wallet with balance -1.5 and reserved -50.75.
\<close>

theorem repeated_completion_counterexample:
  "map status (transactions completedStore) = [''COMPLETED''] \<and>
   wallets completedStore =
     [exampleWallet\<lparr> balance := 49.25, availableBalance := 49.25, reservedBalance := 0 \<rparr>] \<and>
   wallets (snd (handleCircleWebhook exampleEnv examplePayload None completedEvent completedStore)) =
     [exampleWallet\<lparr> balance := - 1.5, availableBalance := 49.25, reservedBalance := - 50.75 \<rparr>]"
  by code_simp

text \<open>
  Claim C2, as amended. Completion is applied on every delivery: for a transaction that is
  already COMPLETED, a further completed event, or a further status update to COMPLETED,
  subtracts amount + fee once more from balance and from reservedBalance of the wallet rows
  with the transaction's wallet id and leaves availableBalance as it is. For a transaction
  that is already FAILED, a further failed event adds amount + fee once more to
  availableBalance and subtracts it from reservedBalance.
\<close>

theorem repeated_completion_debits_again:
  "(truthyString (ev_dataId ev) \<longrightarrow> findTransactionByCircleId (the (ev_dataId ev)) s = Some t \<longrightarrow>
    status t = ''COMPLETED'' \<longrightarrow>
      wallets (handleTransactionCompleted e ev s) =
        onWallet (walletId t) (settle (amount t + fee t)) (wallets s)) \<and>
   (findUserTransaction i (u_id usr) s = Some t' \<longrightarrow> status t' = ''COMPLETED'' \<longrightarrow>
    toUpperCase st = ''COMPLETED'' \<longrightarrow>
      wallets (snd (updateTransactionStatus e (Some usr) i (Some st) msg s)) =
        onWallet (walletId t') (settle (amount t' + fee t')) (wallets s)) \<and>
   (truthyString (ev_dataId ev) \<longrightarrow> findTransactionByCircleId (the (ev_dataId ev)) s = Some t \<longrightarrow>
    status t = ''FAILED'' \<longrightarrow>
      wallets (handleTransactionFailed ev s) =
        onWallet (walletId t) (release (amount t + fee t)) (wallets s))"
  using handleTransactionCompleted_wallets handleTransactionFailed_wallets
    updateTransactionStatus_completed_wallets by blast

theorem repeated_completion_debits_again_witness:
  "truthyString (ev_dataId completedEvent) \<and>
   findTransactionByCircleId (the (ev_dataId completedEvent)) completedStore =
     Some completedTransaction \<and>
   status completedTransaction = ''COMPLETED'' \<and>
   wallets (handleTransactionCompleted exampleEnv completedEvent completedStore) =
     [exampleWallet\<lparr> balance := - 1.5, availableBalance := 49.25, reservedBalance := - 50.75 \<rparr>] \<and>
   findUserTransaction 1 (u_id exampleUser) completedStore = Some completedTransaction \<and>
   toUpperCase ''completed'' = ''COMPLETED'' \<and>
   wallets (snd (updateTransactionStatus exampleEnv (Some exampleUser) 1 (Some ''completed'') None
                   completedStore)) =
     [exampleWallet\<lparr> balance := - 1.5, availableBalance := 49.25, reservedBalance := - 50.75 \<rparr>] \<and>
   truthyString (ev_dataId failedEvent) \<and>
   findTransactionByCircleId (the (ev_dataId failedEvent)) failedStore = Some failedTransaction \<and>
   status failedTransaction = ''FAILED'' \<and>
   wallets (handleTransactionFailed failedEvent failedStore) =
     [exampleWallet\<lparr> availableBalance := 150.75, reservedBalance := - 50.75 \<rparr>]"
proof -
  have c1: "truthyString (ev_dataId completedEvent)" by code_simp
  have c2: "findTransactionByCircleId (the (ev_dataId completedEvent)) completedStore =
     Some completedTransaction" by code_simp
  have c3: "status completedTransaction = ''COMPLETED''" by code_simp
  have u1: "findUserTransaction 1 (u_id exampleUser) completedStore = Some completedTransaction"
    by code_simp
  have u2: "toUpperCase ''completed'' = ''COMPLETED''" by code_simp
  have f1: "truthyString (ev_dataId failedEvent)" by code_simp
  have f2: "findTransactionByCircleId (the (ev_dataId failedEvent)) failedStore =
     Some failedTransaction" by code_simp
  have f3: "status failedTransaction = ''FAILED''" by code_simp
  have w: "wallets completedStore =
     [exampleWallet\<lparr> balance := 49.25, availableBalance := 49.25, reservedBalance := 0 \<rparr>]"
    by code_simp
  have wf: "wallets failedStore = [exampleWallet]"
    by code_simp
  note i1 = repeated_completion_debits_again
    [where ev = completedEvent and s = completedStore and t = completedTransaction
       and e = exampleEnv and i = 1 and usr = exampleUser and t' = completedTransaction
       and st = "''completed''" and msg = None]
  note i2 = repeated_completion_debits_again
    [where ev = failedEvent and s = failedStore and t = failedTransaction]
  have a: "wallets (handleTransactionCompleted exampleEnv completedEvent completedStore) =
      onWallet (walletId completedTransaction)
        (settle (amount completedTransaction + fee completedTransaction)) (wallets completedStore)"
    using i1 c1 c2 c3 by blast
  have b: "wallets (snd (updateTransactionStatus exampleEnv (Some exampleUser) 1 (Some ''completed'')
                   None completedStore)) =
      onWallet (walletId completedTransaction)
        (settle (amount completedTransaction + fee completedTransaction)) (wallets completedStore)"
    using i1 u1 u2 c3 by blast
  have c: "wallets (handleTransactionFailed failedEvent failedStore) =
      onWallet (walletId failedTransaction)
        (release (amount failedTransaction + fee failedTransaction)) (wallets failedStore)"
    using i2 f1 f2 f3 by blast
  have a': "wallets (handleTransactionCompleted exampleEnv completedEvent completedStore) =
     [exampleWallet\<lparr> balance := - 1.5, availableBalance := 49.25, reservedBalance := - 50.75 \<rparr>]"
    unfolding a w
    by (simp add: onWallet_def settle_def completedTransaction_def exampleWallet_def)
  have b': "wallets (snd (updateTransactionStatus exampleEnv (Some exampleUser) 1
                   (Some ''completed'') None completedStore)) =
     [exampleWallet\<lparr> balance := - 1.5, availableBalance := 49.25, reservedBalance := - 50.75 \<rparr>]"
    unfolding b w
    by (simp add: onWallet_def settle_def completedTransaction_def exampleWallet_def)
  have c': "wallets (handleTransactionFailed failedEvent failedStore) =
     [exampleWallet\<lparr> availableBalance := 150.75, reservedBalance := - 50.75 \<rparr>]"
    unfolding c wf
    by (simp add: onWallet_def release_def failedTransaction_def exampleWallet_def)
  show ?thesis using c1 c2 c3 a' u1 u2 b' f1 f2 f3 c' by blast
qed

subsection \<open>Status transitions\<close>

lemma handleTransactionCreated_transactions:
  "transactions (handleTransactionCreated ev s) = transactions s"
  by (simp add: handleTransactionCreated_def split: option.splits)

lemma handleTransactionConfirmed_transactions:
  "transactions (handleTransactionConfirmed ev s) = transactions s"
  by (simp add: handleTransactionConfirmed_def split: option.splits)

lemma handleTransactionCompleted_status:
  "truthyString (ev_dataId ev) \<Longrightarrow> findTransactionByCircleId (the (ev_dataId ev)) s = Some t \<Longrightarrow>
   map status (transactions (handleTransactionCompleted e ev s)) =
     map (\<lambda>x. if tid x = tid t then ''COMPLETED'' else status x) (transactions s)"
  by (simp add: handleTransactionCompleted_def Let_def o_def if_distrib cong: if_cong
      split: option.splits)

lemma handleTransactionFailed_status:
  "truthyString (ev_dataId ev) \<Longrightarrow> findTransactionByCircleId (the (ev_dataId ev)) s = Some t \<Longrightarrow>
   map status (transactions (handleTransactionFailed ev s)) =
     map (\<lambda>x. if tid x = tid t then ''FAILED'' else status x) (transactions s)"
  by (simp add: handleTransactionFailed_def Let_def o_def if_distrib cong: if_cong
      split: option.splits)

lemma updateTransactionStatus_status:
  "findUserTransaction i (u_id usr) s = Some t \<Longrightarrow>
   map status (transactions (snd (updateTransactionStatus e (Some usr) i (Some st) msg s))) =
     map (\<lambda>x. if tid x = i then toUpperCase st else status x) (transactions s)"
  by (simp add: updateTransactionStatus_def Let_def o_def if_distrib cong: if_cong
      split: option.splits)

text \<open>
  Claim C5 as stated fails: the example transaction is COMPLETED, a failed event then sets it
  to FAILED, and a status update with the status pending sets it to PENDING.
\<close>

theorem terminal_status_overwritten_counterexample:
  "map status (transactions completedStore) = [''COMPLETED''] \<and>
   map status (transactions (snd (handleCircleWebhook exampleEnv examplePayload None failedEvent
                                    completedStore))) = [''FAILED''] \<and>
   map status (transactions (snd (updateTransactionStatus exampleEnv (Some exampleUser) 1
                                    (Some ''pending'') None completedStore))) = [''PENDING'']"
  by code_simp

text \<open>
  Claim C5, as amended. No operation checks the current status. Created and confirmed events
  leave the transactions table as it is (they only append a PROCESSING history row). A
  completed event sets the status of the matched transaction to COMPLETED and a failed event
  sets it to FAILED, whatever the status was, terminal or not, and no other transaction's
  status changes. \<open>updateTransactionStatus\<close> sets the status of the addressed transaction
  to the upper-cased status of the request, whatever the status was.
\<close>

theorem status_overwritten_without_predecessor_check:
  "transactions (handleTransactionCreated ev s) = transactions s \<and>
   transactions (handleTransactionConfirmed ev s) = transactions s \<and>
   (truthyString (ev_dataId ev) \<longrightarrow> findTransactionByCircleId (the (ev_dataId ev)) s = Some t \<longrightarrow>
      map status (transactions (handleTransactionCompleted e ev s)) =
        map (\<lambda>x. if tid x = tid t then ''COMPLETED'' else status x) (transactions s) \<and>
      map status (transactions (handleTransactionFailed ev s)) =
        map (\<lambda>x. if tid x = tid t then ''FAILED'' else status x) (transactions s)) \<and>
   (findUserTransaction i (u_id usr) s = Some t' \<longrightarrow>
      map status (transactions (snd (updateTransactionStatus e (Some usr) i (Some st) msg s))) =
        map (\<lambda>x. if tid x = i then toUpperCase st else status x) (transactions s))"
  using handleTransactionCreated_transactions handleTransactionConfirmed_transactions
    handleTransactionCompleted_status handleTransactionFailed_status
    updateTransactionStatus_status by blast


theorem status_overwritten_without_predecessor_check_witness:
  "truthyString (ev_dataId failedEvent) \<and>
   findTransactionByCircleId (the (ev_dataId failedEvent)) completedStore =
     Some completedTransaction \<and>
   map status (transactions completedStore) = [''COMPLETED''] \<and>
   map status (transactions (handleTransactionFailed failedEvent completedStore)) = [''FAILED''] \<and>
   map status (transactions (handleTransactionCompleted exampleEnv failedEvent completedStore)) =
     [''COMPLETED''] \<and>
   findUserTransaction 1 (u_id exampleUser) completedStore = Some completedTransaction \<and>
   map status (transactions (snd (updateTransactionStatus exampleEnv (Some exampleUser) 1
                                    (Some ''pending'') None completedStore))) = [''PENDING'']"
proof -
  have f1: "truthyString (ev_dataId failedEvent)" by code_simp
  have f2: "findTransactionByCircleId (the (ev_dataId failedEvent)) completedStore =
     Some completedTransaction" by code_simp
  have u1: "findUserTransaction 1 (u_id exampleUser) completedStore = Some completedTransaction"
    by code_simp
  have ts: "transactions completedStore = [completedTransaction]" by code_simp
  have up: "toUpperCase ''pending'' = ''PENDING''" by code_simp
  note i = status_overwritten_without_predecessor_check
    [where ev = failedEvent and s = completedStore and t = completedTransaction
       and e = exampleEnv and i = 1 and usr = exampleUser and t' = completedTransaction
       and st = "''pending''" and msg = None]
  have a: "map status (transactions (handleTransactionFailed failedEvent completedStore)) =
      map (\<lambda>x. if tid x = tid completedTransaction then ''FAILED'' else status x)
        (transactions completedStore)"
    using i f1 f2 by blast
  have b: "map status (transactions (handleTransactionCompleted exampleEnv failedEvent completedStore)) =
      map (\<lambda>x. if tid x = tid completedTransaction then ''COMPLETED'' else status x)
        (transactions completedStore)"
    using i f1 f2 by blast
  have c: "map status (transactions (snd (updateTransactionStatus exampleEnv (Some exampleUser) 1
                                    (Some ''pending'') None completedStore))) =
      map (\<lambda>x. if tid x = 1 then toUpperCase ''pending'' else status x)
        (transactions completedStore)"
    using i u1 by blast
  have s0: "map status (transactions completedStore) = [''COMPLETED'']"
    by (simp add: ts completedTransaction_def)
  have a': "map status (transactions (handleTransactionFailed failedEvent completedStore)) = [''FAILED'']"
    unfolding a ts by (simp add: completedTransaction_def)
  have b': "map status (transactions (handleTransactionCompleted exampleEnv failedEvent completedStore)) =
     [''COMPLETED'']"
    unfolding b ts by (simp add: completedTransaction_def)
  have c': "map status (transactions (snd (updateTransactionStatus exampleEnv (Some exampleUser) 1
                                    (Some ''pending'') None completedStore))) = [''PENDING'']"
    unfolding c ts up by (simp add: completedTransaction_def)
  show ?thesis using f1 f2 s0 a' b' u1 c' by blast
qed

subsection \<open>Settlement initiation and signatures\<close>

text \<open>
  Claim C3 on the code: for the example user (who has a Circle customer id) and a gateway
  call that throws, \<open>createTransfer\<close> answers 500, the created transaction stays PENDING
  with no Circle transfer id, and the wallet keeps 50.75 reserved.
\<close>

theorem createTransfer_gateway_failure_leaves_reservation:
  "fst (createTransfer gatewayDownEnv (Some exampleUser) exampleRequest exampleStore) =
     \<lparr> code = 500, success = False \<rparr> \<and>
   map status (transactions (snd (createTransfer gatewayDownEnv (Some exampleUser) exampleRequest
                                    exampleStore))) = [''PENDING''] \<and>
   map circleTransferId (transactions (snd (createTransfer gatewayDownEnv (Some exampleUser)
                                    exampleRequest exampleStore))) = [None] \<and>
   wallets (snd (createTransfer gatewayDownEnv (Some exampleUser) exampleRequest exampleStore)) =
     [exampleWallet\<lparr> availableBalance := 49.25, reservedBalance := 50.75 \<rparr>]"
  by code_simp

text \<open>
  Claim C7 on the code: in the production configuration the Circle verification accepts a
  forged signature (the Rampnow verification rejects the same one), the handler answers 200
  and the completion is applied to the wallet.
\<close>

theorem forged_circle_signature_is_accepted_in_production:
  "NODE_ENV exampleEnv = ''production'' \<and>
   CircleService_verifyWebhookSignature exampleEnv examplePayload (Some ''forged'') \<and>
   \<not> RampnowService_verifyWebhookSignature exampleEnv examplePayload (Some ''forged'') \<and>
   fst (handleCircleWebhook exampleEnv examplePayload (Some ''forged'') completedEvent reservedStore) =
     \<lparr> code = 200, success = True \<rparr> \<and>
   wallets reservedStore =
     [exampleWallet\<lparr> availableBalance := 49.25, reservedBalance := 50.75 \<rparr>] \<and>
   wallets (snd (handleCircleWebhook exampleEnv examplePayload (Some ''forged'') completedEvent
                   reservedStore)) =
     [exampleWallet\<lparr> balance := 49.25, availableBalance := 49.25, reservedBalance := 0 \<rparr>]"
  by code_simp

theorem forged_circle_signature_is_accepted_in_production_witness:
  "truthyString (Some ''forged'') \<and> truthyString (RAMPNOW_WEBHOOK_SECRET exampleEnv) \<and>
   \<not> RampnowService_verifyWebhookSignature exampleEnv examplePayload (Some ''forged'') \<and>
   CircleService_verifyWebhookSignature exampleEnv examplePayload (Some ''forged'')"
proof -
  have s: "truthyString (Some ''forged'')" by (simp add: truthyString_def)
  have k: "truthyString (RAMPNOW_WEBHOOK_SECRET exampleEnv)"
    by (simp add: truthyString_def exampleEnv_def)
  show ?thesis using s k forged_circle_signature_is_accepted_in_production by blast
qed

subsection \<open>Non-negative balances\<close>








lemma nonNegative_createTransaction [simp]: "nonNegative (createTransaction t s) = nonNegative s"
  by (simp add: nonNegative_def)
















end
